theory Spec2Isabelle
  imports Complex_Main
begin

section \<open>Config ingestion (map\_manager.py, class IHeartRadioConfig)\<close>

text \<open>
  Python strings are modelled as \<open>string\<close>; a \<open>char\<close> stands for one code point below
  256. Exceptions are values: every raise of the source is an \<open>Inl\<close> of the model.
  \<open>CoordinatesMalformed\<close> is the \<^verbatim>\<open>Exception('Coordinates ... are malformed.')\<close> raised by
  \<^verbatim>\<open>Coordinates.parse\<close>; the other constructors are the interpreter's own exceptions.
\<close>

datatype error =
    IndexError
  | KeyError string
  | TypeError
  | ValueError
  | AttributeError
  | FileNotFoundError
  | CoordinatesMalformed

text \<open>
  A parsed config value is what \<^verbatim>\<open>_parse_value\<close> returns: the result of one
  \<^verbatim>\<open>strip_quotes\<close> call (a string, or Python's \<^verbatim>\<open>None\<close>), or a list of such results.
\<close>

datatype cfg_value = Val "string option" | Vals "string option list"

text \<open>The slice \<^verbatim>\<open>s[1:-1]\<close>: empty for strings of length below two.\<close>

definition slice_1_m1 :: "string \<Rightarrow> string" where
  "slice_1_m1 s = butlast (tl s)"

text \<open>
  \<^verbatim>\<open>strip_quotes\<close>: \<^verbatim>\<open>s[0]\<close> raises IndexError on the empty string; the function has a
  \<^verbatim>\<open>return\<close> only inside the \<^verbatim>\<open>if\<close>, so it returns \<^verbatim>\<open>None\<close> otherwise.
  \<open>CHR 0x22\<close> is the double quote, \<open>CHR 0x27\<close> the single quote.
\<close>

definition strip_quotes :: "string \<Rightarrow> error + string option" where
  "strip_quotes s =
     (if s = [] then Inl IndexError
      else if (hd s = last s \<and> last s = CHR 0x22) \<or> (hd s = last s \<and> last s = CHR 0x27)
           then Inr (Some (slice_1_m1 s))
      else Inr None)"

text \<open>\<^verbatim>\<open>str.split(sep)\<close> for a one-character separator.\<close>

fun py_split :: "char \<Rightarrow> string \<Rightarrow> string list" where
  "py_split sep [] = [[]]"
| "py_split sep (c # cs) =
     (if c = sep then [] # py_split sep cs
      else (case py_split sep cs of [] \<Rightarrow> [[c]] | p # ps \<Rightarrow> (c # p) # ps))"

text \<open>The list comprehension of \<^verbatim>\<open>_parse_value\<close>: the first failing call raises.\<close>

fun strip_all :: "string list \<Rightarrow> error + string option list" where
  "strip_all [] = Inr []"
| "strip_all (p # ps) =
     (case strip_quotes p of
        Inl e \<Rightarrow> Inl e
      | Inr x \<Rightarrow> (case strip_all ps of Inl e \<Rightarrow> Inl e | Inr xs \<Rightarrow> Inr (x # xs)))"

definition parse_value :: "string \<Rightarrow> error + cfg_value" where
  "parse_value v =
     (if CHR '';'' \<in> set v
      then (case strip_all (py_split (CHR '';'') v) of
              Inl e \<Rightarrow> Inl e
            | Inr xs \<Rightarrow> Inr (Vals xs))
      else (case strip_quotes v of Inl e \<Rightarrow> Inl e | Inr x \<Rightarrow> Inr (Val x)))"

text \<open>
  \<^verbatim>\<open>str.splitlines()\<close>: the line boundaries below 256 are LF, CR, CR LF, VT, FF,
  FS, GS, RS and NEL; a final line break does not open a new line.
\<close>

definition linebreak :: "char \<Rightarrow> bool" where
  "linebreak c \<longleftrightarrow>
     c \<in> {CHR 0x0A, CHR 0x0D, CHR 0x0B, CHR 0x0C, CHR 0x1C, CHR 0x1D, CHR 0x1E, CHR 0x85}"

fun splitlines_from :: "string \<Rightarrow> string \<Rightarrow> string list" where
  "splitlines_from cur [] = (if cur = [] then [] else [rev cur])"
| "splitlines_from cur [c] = (if linebreak c then [rev cur] else [rev (c # cur)])"
| "splitlines_from cur (c # d # cs) =
     (if c = CHR 0x0D \<and> d = CHR 0x0A then
        (if cs = [] then [rev cur] else rev cur # splitlines_from [] cs)
      else if linebreak c then rev cur # splitlines_from [] (d # cs)
      else splitlines_from (c # cur) (d # cs))"

definition splitlines :: "string \<Rightarrow> string list" where
  "splitlines text = splitlines_from [] text"

text \<open>
  The class \<^verbatim>\<open>\w\<close> of a Python 3 \<^verbatim>\<open>str\<close> pattern, on code points below 256:
  the alphanumeric ones and the underscore.
\<close>

definition word_char :: "char \<Rightarrow> bool" where
  "word_char c =
     (let n = (of_char c :: nat) in
        (48 \<le> n \<and> n \<le> 57) \<or> (65 \<le> n \<and> n \<le> 90) \<or> n = 95 \<or> (97 \<le> n \<and> n \<le> 122)
        \<or> n = 170 \<or> n = 178 \<or> n = 179 \<or> n = 181 \<or> n = 185 \<or> n = 186
        \<or> n = 188 \<or> n = 189 \<or> n = 190
        \<or> (192 \<le> n \<and> n \<le> 214) \<or> (216 \<le> n \<and> n \<le> 246) \<or> (248 \<le> n \<and> n \<le> 255))"

text \<open>
  \<^verbatim>\<open>re.search(r'(\w+)=(.*?)$', line)\<close>. At a start position the pattern matches when the
  longest run of word characters there is not empty and is followed by \<open>=\<close>; the lazy
  group then runs to the end of the line (a line holds no LF). The search takes the
  leftmost start position that matches.
\<close>

definition match_key_val :: "string \<Rightarrow> (string \<times> string) option" where
  "match_key_val s =
     (let w = takeWhile word_char s; r = dropWhile word_char s
      in if w \<noteq> [] \<and> r \<noteq> [] \<and> hd r = CHR ''='' then Some (w, tl r) else None)"

fun search_key_val :: "string \<Rightarrow> (string \<times> string) option" where
  "search_key_val [] = None"
| "search_key_val (c # cs) =
     (case match_key_val (c # cs) of
        Some kv \<Rightarrow> Some kv
      | None \<Rightarrow> search_key_val cs)"

text \<open>\<^verbatim>\<open>load\<close>: the loop over the lines, on the dict built so far.\<close>

fun load_lines :: "(string \<rightharpoonup> cfg_value) \<Rightarrow> string list \<Rightarrow> error + (string \<rightharpoonup> cfg_value)" where
  "load_lines result [] = Inr result"
| "load_lines result (line # lines) =
     (case search_key_val line of
        None \<Rightarrow> load_lines result lines
      | Some (key, val) \<Rightarrow>
          (case parse_value val of
             Inl e \<Rightarrow> Inl e
           | Inr v \<Rightarrow> load_lines (result(key \<mapsto> v)) lines))"

definition load :: "string \<Rightarrow> error + (string \<rightharpoonup> cfg_value)" where
  "load text = load_lines Map.empty (splitlines text)"

section \<open>Config entries (classes AreaId and Coordinates)\<close>

text \<open>
  Python floats are idealised as real numbers. The builtin \<^verbatim>\<open>float(str)\<close> is a
  parameter \<open>F\<close>: \<open>F s = None\<close> where \<^verbatim>\<open>float\<close> raises ValueError.
\<close>

type_synonym coords = "(real \<times> real) \<times> (real \<times> real)"

definition py_float :: "(string \<Rightarrow> real option) \<Rightarrow> string \<Rightarrow> error + real" where
  "py_float F s = (case F s of None \<Rightarrow> Inl ValueError | Some x \<Rightarrow> Inr x)"

text \<open>\<^verbatim>\<open>len(value)\<close> on a string, a list or \<^verbatim>\<open>None\<close>.\<close>

definition py_len :: "cfg_value \<Rightarrow> error + nat" where
  "py_len v =
     (case v of
        Val None \<Rightarrow> Inl TypeError
      | Val (Some s) \<Rightarrow> Inr (length s)
      | Vals xs \<Rightarrow> Inr (length xs))"

text \<open>\<^verbatim>\<open>value[i]\<close>: a character of a string is a string of length one.\<close>

definition py_item :: "cfg_value \<Rightarrow> nat \<Rightarrow> error + string option" where
  "py_item v i =
     (case v of
        Val None \<Rightarrow> Inl TypeError
      | Val (Some s) \<Rightarrow> (if i < length s then Inr (Some [s ! i]) else Inl IndexError)
      | Vals xs \<Rightarrow> (if i < length xs then Inr (xs ! i) else Inl IndexError))"

text \<open>
  \<^verbatim>\<open>a, b = seg[1:-1].split(',')\<close>: slicing \<^verbatim>\<open>None\<close> raises TypeError, unpacking
  anything but two parts raises ValueError.
\<close>

definition split_pair :: "string option \<Rightarrow> error + (string \<times> string)" where
  "split_pair seg =
     (case seg of
        None \<Rightarrow> Inl TypeError
      | Some s \<Rightarrow>
          (case py_split (CHR '','') (slice_1_m1 s) of
             [a, b] \<Rightarrow> Inr (a, b)
           | _ \<Rightarrow> Inl ValueError))"

definition four_floats ::
  "(string \<Rightarrow> real option) \<Rightarrow> string \<times> string \<Rightarrow> string \<times> string \<Rightarrow> error + coords" where
  "four_floats F edge0 edge1 =
     (case py_float F (fst edge0) of Inl e \<Rightarrow> Inl e | Inr lat_top \<Rightarrow>
      case py_float F (snd edge0) of Inl e \<Rightarrow> Inl e | Inr lon_left \<Rightarrow>
      case py_float F (fst edge1) of Inl e \<Rightarrow> Inl e | Inr lat_bottom \<Rightarrow>
      case py_float F (snd edge1) of Inl e \<Rightarrow> Inl e | Inr lon_right \<Rightarrow>
        Inr ((lat_top, lon_left), (lat_bottom, lon_right)))"

definition Coordinates_parse :: "(string \<Rightarrow> real option) \<Rightarrow> cfg_value \<Rightarrow> error + coords" where
  "Coordinates_parse F v =
     (case py_len v of Inl e \<Rightarrow> Inl e | Inr n \<Rightarrow>
      if n \<noteq> 2 then Inl CoordinatesMalformed else
      case py_item v 0 of Inl e \<Rightarrow> Inl e | Inr seg0 \<Rightarrow>
      case split_pair seg0 of Inl e \<Rightarrow> Inl e | Inr edge0 \<Rightarrow>
      case py_item v 1 of Inl e \<Rightarrow> Inl e | Inr seg1 \<Rightarrow>
      case split_pair seg1 of Inl e \<Rightarrow> Inl e | Inr edge1 \<Rightarrow>
        four_floats F edge0 edge1)"

text \<open>\<^verbatim>\<open>config[key]\<close>.\<close>

definition config_get :: "(string \<rightharpoonup> cfg_value) \<Rightarrow> string \<Rightarrow> error + cfg_value" where
  "config_get config key = (case config key of None \<Rightarrow> Inl (KeyError key) | Some v \<Rightarrow> Inr v)"

section \<open>Images, files and the configuration outside the sources\<close>

text \<open>
  An image of the imaging library is its size, its mode and its pixel data; the pixel
  data is left abstract. Two images are the same tile when all three agree.
\<close>

record 'd image =
  im_size :: "nat \<times> nat"
  im_mode :: string
  im_data :: 'd

text \<open>
  What the two modules use without defining it: the paths of \<^verbatim>\<open>static_config\<close> and of
  the package (\<^verbatim>\<open>MAP_FILE\<close>, \<^verbatim>\<open>MAPS\<close>), the builtins \<^verbatim>\<open>float\<close> and \<^verbatim>\<open>repr\<close> on strings,
  and the pixel work of the imaging library. \<^verbatim>\<open>crop\<close> may raise, as the library decides;
  \<^verbatim>\<open>resize\<close> and \<^verbatim>\<open>convert\<close> return an image of the size and mode asked for.
  Removing a file and saving an image may raise as well: \<open>unlink_error\<close> and
  \<open>save_error\<close> give what the operating system and the encoder raise at a path (a
  directory that does not exist, missing rights, a mode that the encoder cannot write),
  and \<open>None\<close> where the operation goes through. \<open>cache_directory\<close> is the string of a
  \<^verbatim>\<open>Path\<close>.
\<close>

record 'd ext =
  cache_directory :: string
  main_map_file :: string
  MAP_FILE :: string
  MAPS :: string
  float_builtin :: "string \<Rightarrow> real option"
  repr_builtin :: "string \<Rightarrow> string"
  pil_crop :: "int \<times> int \<times> int \<times> int \<Rightarrow> 'd image \<Rightarrow> error + 'd image"
  pil_resize_data :: "nat \<times> nat \<Rightarrow> 'd image \<Rightarrow> 'd"
  pil_convert_data :: "string \<Rightarrow> 'd image \<Rightarrow> 'd"
  unlink_error :: "string \<Rightarrow> error option"
  save_error :: "string \<Rightarrow> 'd image \<Rightarrow> error option"

definition Image_resize :: "'d ext \<Rightarrow> nat \<times> nat \<Rightarrow> 'd image \<Rightarrow> 'd image" where
  "Image_resize X sz im =
     \<lparr>im_size = sz, im_mode = im_mode im, im_data = pil_resize_data X sz im\<rparr>"

text \<open>\<^verbatim>\<open>convert(mode)\<close> returns a copy when the image already has that mode.\<close>

definition Image_convert :: "'d ext \<Rightarrow> string \<Rightarrow> 'd image \<Rightarrow> 'd image" where
  "Image_convert X m im =
     (if im_mode im = m then im
      else \<lparr>im_size = im_size im, im_mode = m, im_data = pil_convert_data X m im\<rparr>)"

text \<open>
  \<^verbatim>\<open>str(value)\<close>, as the f-string of \<^verbatim>\<open>map_cache_file\<close> formats the area id.
\<close>

fun join_with :: "string \<Rightarrow> string list \<Rightarrow> string" where
  "join_with sep [] = []"
| "join_with sep [x] = x"
| "join_with sep (x # y # ys) = x @ sep @ join_with sep (y # ys)"

definition repr_item :: "'d ext \<Rightarrow> string option \<Rightarrow> string" where
  "repr_item X x = (case x of None \<Rightarrow> ''None'' | Some s \<Rightarrow> repr_builtin X s)"

definition py_str :: "'d ext \<Rightarrow> cfg_value \<Rightarrow> string" where
  "py_str X v =
     (case v of
        Val None \<Rightarrow> ''None''
      | Val (Some s) \<Rightarrow> s
      | Vals xs \<Rightarrow> ''['' @ join_with '', '' (map (repr_item X) xs) @ '']'')"

text \<open>\<^verbatim>\<open>os.path.join(a, b)\<close> on POSIX.\<close>

definition os_path_join :: "string \<Rightarrow> string \<Rightarrow> string" where
  "os_path_join a b =
     (if b \<noteq> [] \<and> hd b = CHR ''/'' then b
      else if a = [] \<or> last a = CHR ''/'' then a @ b
      else a @ ''/'' @ b)"

text \<open>
  The files: a path is mapped to the image stored there. \<^verbatim>\<open>unlink\<close> and \<^verbatim>\<open>save\<close>
  change the files only when they do not raise.
\<close>

definition file_unlink ::
  "'d ext \<Rightarrow> string \<Rightarrow> (string \<rightharpoonup> 'd image) \<Rightarrow> error + (string \<rightharpoonup> 'd image)" where
  "file_unlink X p fs =
     (case unlink_error X p of Some e \<Rightarrow> Inl e | None \<Rightarrow> Inr (fs(p := None)))"

definition Image_save ::
  "'d ext \<Rightarrow> 'd image \<Rightarrow> string \<Rightarrow> (string \<rightharpoonup> 'd image) \<Rightarrow> error + (string \<rightharpoonup> 'd image)" where
  "Image_save X im p fs =
     (case save_error X p im of Some e \<Rightarrow> Inl e | None \<Rightarrow> Inr (fs(p \<mapsto> im)))"

text \<open>
  \<^verbatim>\<open>Path(name)\<close> for a relative name: the components between slashes, without the empty
  ones and without the single dots. \<^verbatim>\<open>directory / Path(name)\<close> appends them to the
  directory; the result is given as its string.
\<close>

definition path_parts :: "string \<Rightarrow> string list" where
  "path_parts name = filter (\<lambda>c. c \<noteq> [] \<and> c \<noteq> ''.'') (py_split (CHR ''/'') name)"

definition path_div :: "string \<Rightarrow> string \<Rightarrow> string" where
  "path_div d name =
     (let rel = join_with ''/'' (path_parts name)
      in if d = [] \<or> d = ''.'' then rel
         else if last d = CHR ''/'' then d @ rel
         else d @ ''/'' @ rel)"

section \<open>The projection\<close>

definition LAT_MAX :: real where
  "LAT_MAX = 1.0799224683069641"

definition REF_LAT :: real where
  "REF_LAT = 0.7380009964270406"

text \<open>\<^verbatim>\<open>int(x)\<close> on a float truncates towards zero.\<close>

definition py_int :: "real \<Rightarrow> int" where
  "py_int x = (if 0 \<le> x then \<lfloor>x\<rfloor> else \<lceil>x\<rceil>)"

definition radians :: "real \<Rightarrow> real" where
  "radians x = x * (pi / 180)"

definition make_linear :: "real \<Rightarrow> real" where
  "make_linear val = LAT_MAX - arsinh (tan (radians val))"

definition x_of_lon :: "real \<Rightarrow> real" where
  "x_of_lon lon = (lon + 130.781250) * 7162 / 39.34135"

definition y_of_lin :: "real \<Rightarrow> real" where
  "y_of_lin lin_lat = lin_lat * 3565 / (LAT_MAX - REF_LAT)"

text \<open>
  The box that \<^verbatim>\<open>MapManager.create_map\<close> hands to \<^verbatim>\<open>crop\<close>: the latitudes are
  linearised into local variables.
\<close>

definition crop_box :: "coords \<Rightarrow> int \<times> int \<times> int \<times> int" where
  "crop_box c =
     (let lat_top = fst (fst c); lon_left = snd (fst c);
          lat_bottom = fst (snd c); lon_right = snd (snd c);
          lin_lat_top = make_linear lat_top;
          lin_lat_bottom = make_linear lat_bottom;
          x1 = x_of_lon lon_left;
          x2 = x_of_lon lon_right;
          y1 = y_of_lin lin_lat_top;
          y2 = y_of_lin lin_lat_bottom
      in (py_int x1, py_int y1, py_int x2, py_int y2))"

section \<open>MapManager (map\_manager.py)\<close>

text \<open>
  The state of one manager and of the file system it works on. \<open>cached_map\<close> is the
  attribute \<^verbatim>\<open>_map\<close>; \<open>files\<close> maps a path to the image stored there, and an image
  that was saved is the image that is opened later.
\<close>

record 'd state =
  area_id :: "cfg_value option"
  coordinates :: "coords option"
  cached_map :: "'d image option"
  files :: "string \<rightharpoonup> 'd image"


text \<open>\<^verbatim>\<open>map_cache_file\<close>: \<^verbatim>\<open>self.area_id.value\<close> raises AttributeError on \<^verbatim>\<open>None\<close>.\<close>

definition map_cache_file :: "'d ext \<Rightarrow> 'd state \<Rightarrow> error + string" where
  "map_cache_file X s =
     (case area_id s of
        None \<Rightarrow> Inl AttributeError
      | Some v \<Rightarrow> Inr (path_div (cache_directory X) (''map_'' @ py_str X v @ ''.png'')))"

definition has_config :: "'d state \<Rightarrow> bool" where
  "has_config s \<longleftrightarrow> area_id s \<noteq> None \<and> coordinates s \<noteq> None"

text \<open>
  \<^verbatim>\<open>reload_config\<close>, on the text read from the file: the two attributes are assigned one
  after the other, and an exception leaves what was assigned before it.
\<close>

definition reload_config :: "'d ext \<Rightarrow> string \<Rightarrow> 'd state \<Rightarrow> (error + unit) \<times> 'd state" where
  "reload_config X config_text s =
     (case load config_text of Inl e \<Rightarrow> (Inl e, s) | Inr config \<Rightarrow>
      case config_get config ''DWR_Area_ID'' of Inl e \<Rightarrow> (Inl e, s) | Inr a \<Rightarrow>
      let s1 = s\<lparr>area_id := Some a\<rparr> in
      case config_get config ''Coordinates'' of Inl e \<Rightarrow> (Inl e, s1) | Inr v \<Rightarrow>
      case Coordinates_parse (float_builtin X) v of Inl e \<Rightarrow> (Inl e, s1) | Inr c \<Rightarrow>
        (Inr (), s1\<lparr>coordinates := Some c, cached_map := None\<rparr>))"

text \<open>\<^verbatim>\<open>create_map\<close>: the main map is opened first, then the coordinates are read.\<close>

definition create_map :: "'d ext \<Rightarrow> 'd state \<Rightarrow> error + 'd image" where
  "create_map X s =
     (case files s (main_map_file X) of None \<Rightarrow> Inl FileNotFoundError | Some main_map \<Rightarrow>
      case coordinates s of None \<Rightarrow> Inl AttributeError | Some c \<Rightarrow>
      case pil_crop X (crop_box c) main_map of Inl e \<Rightarrow> Inl e | Inr cropped \<Rightarrow>
        Inr (Image_convert X ''RGBA'' (Image_resize X (900, 900) cropped)))"

text \<open>
  The setter of \<^verbatim>\<open>map\<close>: the attribute is assigned first; then the path is computed,
  the cache file is removed if it exists, and the image is saved. Each of the three
  steps may raise, and leaves what was done before it.
\<close>

definition map_set :: "'d ext \<Rightarrow> 'd image \<Rightarrow> 'd state \<Rightarrow> (error + unit) \<times> 'd state" where
  "map_set X val s =
     (let s1 = s\<lparr>cached_map := Some val\<rparr> in
      case map_cache_file X s1 of Inl e \<Rightarrow> (Inl e, s1) | Inr p \<Rightarrow>
      case (if files s1 p \<noteq> None then file_unlink X p (files s1) else Inr (files s1)) of
        Inl e \<Rightarrow> (Inl e, s1)
      | Inr fs \<Rightarrow>
          (case Image_save X val p fs of
             Inl e \<Rightarrow> (Inl e, s1\<lparr>files := fs\<rparr>)
           | Inr fs' \<Rightarrow> (Inr (), s1\<lparr>files := fs'\<rparr>)))"

text \<open>The getter of \<^verbatim>\<open>map\<close>: attribute, then cache file, then a new map.\<close>

definition map_get :: "'d ext \<Rightarrow> 'd state \<Rightarrow> (error + 'd image) \<times> 'd state" where
  "map_get X s =
     (case cached_map s of Some m \<Rightarrow> (Inr m, s) | None \<Rightarrow>
      case map_cache_file X s of Inl e \<Rightarrow> (Inl e, s) | Inr p \<Rightarrow>
      case files s p of
        Some map_image \<Rightarrow>
          (case map_set X map_image s of
             (Inl e, s') \<Rightarrow> (Inl e, s')
           | (Inr u, s') \<Rightarrow> (Inr (Image_convert X ''RGBA'' map_image), s'))
      | None \<Rightarrow>
          (case create_map X s of Inl e \<Rightarrow> (Inl e, s) | Inr map_image \<Rightarrow>
           case map_set X map_image s of
             (Inl e, s') \<Rightarrow> (Inl e, s')
           | (Inr u, s') \<Rightarrow> (Inr map_image, s')))"

section \<open>AreaMap (us\_map.py)\<close>

record 'd areamap =
  lat1 :: "real option"
  lon1 :: "real option"
  lat2 :: "real option"
  lon2 :: "real option"
  am_area_id :: "string option"
  am_map :: "'d image option"
  am_files :: "string \<rightharpoonup> 'd image"

text \<open>
  Lines 59 to 74 of \<^verbatim>\<open>render\<close>: the linearised latitudes are written back to
  \<^verbatim>\<open>self.lat1\<close> and \<^verbatim>\<open>self.lat2\<close>, and the four integers are computed from the
  attributes as they are then. Arithmetic on \<^verbatim>\<open>None\<close> raises TypeError.
\<close>

definition render_offsets ::
  "'d areamap \<Rightarrow> (error + int \<times> int \<times> int \<times> int) \<times> 'd areamap" where
  "render_offsets s =
     (case lat1 s of None \<Rightarrow> (Inl TypeError, s) | Some a1 \<Rightarrow>
      let s1 = s\<lparr>lat1 := Some (LAT_MAX - arsinh (tan (radians a1)))\<rparr> in
      case lat2 s1 of None \<Rightarrow> (Inl TypeError, s1) | Some a2 \<Rightarrow>
      let s2 = s1\<lparr>lat2 := Some (LAT_MAX - arsinh (tan (radians a2)))\<rparr> in
      case lon1 s2 of None \<Rightarrow> (Inl TypeError, s2) | Some o1 \<Rightarrow>
      case lon2 s2 of None \<Rightarrow> (Inl TypeError, s2) | Some o2 \<Rightarrow>
      case lat1 s2 of None \<Rightarrow> (Inl TypeError, s2) | Some l1 \<Rightarrow>
      case lat2 s2 of None \<Rightarrow> (Inl TypeError, s2) | Some l2 \<Rightarrow>
        (Inr (py_int (x_of_lon o1), py_int (y_of_lin l1),
              py_int (x_of_lon o2), py_int (y_of_lin l2)), s2))"

definition png_name :: "string option \<Rightarrow> string" where
  "png_name a = (case a of None \<Rightarrow> ''None'' | Some n \<Rightarrow> n) @ ''.png''"

definition render :: "'d ext \<Rightarrow> 'd areamap \<Rightarrow> (error + unit) \<times> 'd areamap" where
  "render X s =
     (case am_files s (MAP_FILE X) of None \<Rightarrow> (Inl FileNotFoundError, s) | Some us_map \<Rightarrow>
      case render_offsets s of (Inl e, s') \<Rightarrow> (Inl e, s') | (Inr box, s') \<Rightarrow>
      case pil_crop X box us_map of Inl e \<Rightarrow> (Inl e, s') | Inr cropped \<Rightarrow>
      let m = Image_convert X ''RGBA'' (Image_resize X (900, 900) cropped);
          s'' = s'\<lparr>am_map := Some m\<rparr>
      in case Image_save X m (os_path_join (MAPS X) (png_name (am_area_id s''))) (am_files s'') of
           Inl e \<Rightarrow> (Inl e, s'')
         | Inr fs \<Rightarrow> (Inr (), s''\<lparr>am_files := fs\<rparr>))"

text \<open>\<^verbatim>\<open>get_map\<close> returns \<^verbatim>\<open>self.map\<close>, whatever it holds then.\<close>

definition get_map :: "'d ext \<Rightarrow> 'd areamap \<Rightarrow> (error + 'd image option) \<times> 'd areamap" where
  "get_map X s =
     (if am_map s \<noteq> None then (Inr (am_map s), s)
      else case am_files s (os_path_join (MAPS X) (png_name (am_area_id s))) of
        Some img \<Rightarrow>
          (let s' = s\<lparr>am_map := Some (Image_convert X ''RGBA'' img)\<rparr> in (Inr (am_map s'), s'))
      | None \<Rightarrow>
          (case render X s of (Inl e, s') \<Rightarrow> (Inl e, s') | (Inr u, s') \<Rightarrow> (Inr (am_map s'), s')))"

section \<open>Properties and example inputs\<close>



text \<open>Example inputs: the config text of the specification, and one with a single segment.\<close>

definition quoted :: "string \<Rightarrow> string" where
  "quoted s = [CHR 0x22] @ s @ [CHR 0x22]"


definition bad_text :: string where
  "bad_text =
     ''DWR_Area_ID='' @ quoted ''NEW'' @ [CHR 0x0A] @ ''Coordinates='' @ quoted ''(40.5,-75.1)''"

text \<open>
  An instance of the outside: \<^verbatim>\<open>float\<close> on the four literals of the example, and the
  directories \<^verbatim>\<open>cache\<close> and \<^verbatim>\<open>maps\<close> without any sub-directory, so that saving at
  a path with more than one slash raises FileNotFoundError.
\<close>

definition example_float :: "string \<Rightarrow> real option" where
  "example_float s =
     (if s = ''40.5'' then Some 40.5
      else if s = ''-75.1'' then Some (- 75.1)
      else if s = ''39.5'' then Some 39.5
      else if s = ''-74.1'' then Some (- 74.1)
      else None)"

definition example_ext :: "nat ext" where
  "example_ext =
     \<lparr>cache_directory = ''cache'', main_map_file = ''us_map.png'',
      MAP_FILE = ''us_map.png'', MAPS = ''maps'',
      float_builtin = example_float,
      repr_builtin = (\<lambda>s. [CHR 0x27] @ s @ [CHR 0x27]),
      pil_crop = (\<lambda>box im. Inr im),
      pil_resize_data = (\<lambda>sz im. im_data im),
      pil_convert_data = (\<lambda>m im. im_data im),
      unlink_error = (\<lambda>p. None),
      save_error = (\<lambda>p im.
        if 2 < length (py_split (CHR ''/'') p) then Some FileNotFoundError else None)\<rparr>"

definition us_map_image :: "nat image" where
  "us_map_image = \<lparr>im_size = (7162, 3565), im_mode = ''RGB'', im_data = 0\<rparr>"

definition rgb_tile :: "nat image" where
  "rgb_tile = \<lparr>im_size = (900, 900), im_mode = ''RGB'', im_data = 7\<rparr>"

definition small_tile :: "nat image" where
  "small_tile = \<lparr>im_size = (10, 10), im_mode = ''RGB'', im_data = 3\<rparr>"

definition configured :: "(string \<rightharpoonup> nat image) \<Rightarrow> nat state" where
  "configured fs =
     \<lparr>area_id = Some (Val (Some ''ABC123'')),
      coordinates = Some ((40.5, - 75.1), (39.5, - 74.1)),
      cached_map = None, files = fs\<rparr>"

definition old_state :: "nat state" where
  "old_state =
     \<lparr>area_id = Some (Val (Some ''OLD'')),
      coordinates = Some ((49, - 125), (24, - 66)),
      cached_map = Some rgb_tile, files = Map.empty\<rparr>"


text \<open>Configured managers with an empty attribute: a cache file in mode RGB, a small
  cache file, and no cache file but the main map.\<close>

definition disk_hit_state :: "nat state" where
  "disk_hit_state = configured [''cache/map_ABC123.png'' \<mapsto> rgb_tile]"



text \<open>A manager whose area id holds a slash, on a cache directory without files.\<close>

definition slash_state :: "nat state" where
  "slash_state =
     \<lparr>area_id = Some (Val (Some ''a/b'')),
      coordinates = Some ((40.5, - 75.1), (39.5, - 74.1)),
      cached_map = None, files = Map.empty\<rparr>"

text \<open>An \<^verbatim>\<open>AreaMap\<close> with an empty attribute and a rendered file in mode RGB.\<close>

definition am_disk_hit :: "nat areamap" where
  "am_disk_hit =
     \<lparr>lat1 = Some 40.5, lon1 = Some (- 75.1), lat2 = Some 39.5, lon2 = Some (- 74.1),
      am_area_id = Some ''ABC123'', am_map = None,
      am_files = [''maps/ABC123.png'' \<mapsto> rgb_tile]\<rparr>"

text \<open>An \<^verbatim>\<open>AreaMap\<close> on the box of the specification, with the US map on disk.\<close>

definition us_box :: "nat areamap" where
  "us_box =
     \<lparr>lat1 = Some 49, lon1 = Some (- 125), lat2 = Some 24, lon2 = Some (- 66),
      am_area_id = Some ''ABC123'', am_map = None,
      am_files = [''us_map.png'' \<mapsto> us_map_image]\<rparr>"

section \<open>Config ingestion: what is recorded\<close>

text \<open>
  Claim C6 says that a value, or a sub-value between semicolons, that is not wrapped in
  a matching pair of quotes is recorded unchanged. \<^verbatim>\<open>strip_quotes\<close> returns nothing on
  that path, so \<^verbatim>\<open>None\<close> is recorded: the line \<^verbatim>\<open>DWR_Area_ID=ABC123\<close> yields
  \<^verbatim>\<open>None\<close> under its key, and the value \<^verbatim>\<open>a;b\<close> yields the list of two \<^verbatim>\<open>None\<close>.
\<close>

theorem unquoted_value_recorded_as_None:
  "parse_value ''ABC123'' = Inr (Val None)
   \<and> parse_value ''a;b'' = Inr (Vals [None, None])
   \<and> (case load ''DWR_Area_ID=ABC123'' of
         Inl e \<Rightarrow> False
       | Inr config \<Rightarrow> config ''DWR_Area_ID'' = Some (Val None))"
  by (simp add: load_def splitlines_def linebreak_def match_key_val_def word_char_def
      parse_value_def strip_quotes_def)


lemma load_bad_text:
  "load bad_text =
     Inr [''DWR_Area_ID'' \<mapsto> Val (Some ''NEW''),
          ''Coordinates'' \<mapsto> Val (Some ''(40.5,-75.1)'')]"
  by (simp add: load_def bad_text_def quoted_def splitlines_def linebreak_def
      match_key_val_def word_char_def parse_value_def strip_quotes_def slice_1_m1_def)

section \<open>The coordinates entry\<close>

lemma Coordinates_parse_Vals_two:
  "Coordinates_parse F (Vals [x, y]) =
     (case split_pair x of Inl e \<Rightarrow> Inl e | Inr edge0 \<Rightarrow>
      case split_pair y of Inl e \<Rightarrow> Inl e | Inr edge1 \<Rightarrow> four_floats F edge0 edge1)"
  by (simp add: Coordinates_parse_def py_len_def py_item_def split: sum.splits)



lemma Coordinates_parse_wrong_length:
  "length xs \<noteq> 2 \<Longrightarrow> Coordinates_parse F (Vals xs) = Inl CoordinatesMalformed"
  by (simp add: Coordinates_parse_def py_len_def)

lemma split_pair_one_char: "split_pair (Some [c]) = Inl ValueError"
  by (simp add: split_pair_def slice_1_m1_def)

lemma Coordinates_parse_Val:
  "Coordinates_parse F (Val x) =
     (case x of
        None \<Rightarrow> Inl TypeError
      | Some s \<Rightarrow> if length s \<noteq> 2 then Inl CoordinatesMalformed else Inl ValueError)"
  by (auto simp: Coordinates_parse_def py_len_def py_item_def split_pair_one_char
      split: option.splits)

lemma split_pair_wrong_count:
  "length (py_split (CHR '','') (slice_1_m1 s)) \<noteq> 2 \<Longrightarrow> split_pair (Some s) = Inl ValueError"
  by (auto simp: split_pair_def split: list.splits)

lemma split_pair_Inr:
  "split_pair seg = Inr (a, b) \<Longrightarrow>
     \<exists>s. seg = Some s \<and> py_split (CHR '','') (slice_1_m1 s) = [a, b]"
  by (auto simp: split_pair_def split: option.splits list.splits)

lemma four_floats_Inr:
  "four_floats F (a, b) (c, d) = Inr r \<Longrightarrow>
     F a = Some (fst (fst r)) \<and> F b = Some (snd (fst r)) \<and>
     F c = Some (fst (snd r)) \<and> F d = Some (snd (snd r))"
  by (auto simp: four_floats_def py_float_def split: option.splits sum.splits)

lemma Coordinates_parse_Inr:
  assumes "Coordinates_parse F v = Inr r"
  shows "\<exists>s0 s1 a b c d. v = Vals [Some s0, Some s1]
           \<and> py_split (CHR '','') (slice_1_m1 s0) = [a, b]
           \<and> py_split (CHR '','') (slice_1_m1 s1) = [c, d]
           \<and> F a = Some (fst (fst r)) \<and> F b = Some (snd (fst r))
           \<and> F c = Some (fst (snd r)) \<and> F d = Some (snd (snd r))"
proof (cases v)
  case (Val x)
  with assms show ?thesis
    by (simp add: Coordinates_parse_Val split: option.splits if_splits)
next
  case (Vals xs)
  have len: "length xs = 2"
    using assms Vals Coordinates_parse_wrong_length [of xs F] by auto
  then obtain x y where xs: "xs = [x, y]"
    by (cases xs; cases "tl xs") auto
  from assms Vals xs obtain e0 e1 where
    e0: "split_pair x = Inr e0" and e1: "split_pair y = Inr e1"
    and ff: "four_floats F e0 e1 = Inr r"
    by (auto simp: Coordinates_parse_Vals_two split: sum.splits)
  obtain a b c d where ab: "e0 = (a, b)" and cd: "e1 = (c, d)"
    by (cases e0; cases e1) auto
  from split_pair_Inr [OF e0 [unfolded ab]] obtain s0 where
    s0: "x = Some s0" "py_split (CHR '','') (slice_1_m1 s0) = [a, b]" by blast
  from split_pair_Inr [OF e1 [unfolded cd]] obtain s1 where
    s1: "y = Some s1" "py_split (CHR '','') (slice_1_m1 s1) = [c, d]" by blast
  from four_floats_Inr [OF ff [unfolded ab cd]] Vals xs s0 s1 show ?thesis by blast
qed

text \<open>
  Claim C8: \<^verbatim>\<open>Coordinates.parse\<close> fails whenever the value does not have exactly two
  segments or the comma split of a segment does not give exactly two parts, and a
  success has parsed exactly four floats. A list of any other length than two raises
  the exception of line 109. A value of one segment is a string or \<^verbatim>\<open>None\<close> and is
  rejected by that exception, by the unpacking (ValueError) when the string has two
  characters, or by \<^verbatim>\<open>len(None)\<close> (TypeError). Two segments of which one does not
  split into two parts raise ValueError. A result comes only from a list of two
  strings, each splitting into two parts, on which \<^verbatim>\<open>float\<close> succeeded four times.
\<close>

theorem Coordinates_parse_rejects_malformed:
  "(length xs \<noteq> 2 \<longrightarrow> Coordinates_parse F (Vals xs) = Inl CoordinatesMalformed)
   \<and> Coordinates_parse F (Val x) \<in> {Inl CoordinatesMalformed, Inl ValueError, Inl TypeError}
   \<and> (length (py_split (CHR '','') (slice_1_m1 s0)) \<noteq> 2 \<or>
      length (py_split (CHR '','') (slice_1_m1 s1)) \<noteq> 2 \<longrightarrow>
        Coordinates_parse F (Vals [Some s0, Some s1]) = Inl ValueError)
   \<and> (Coordinates_parse F v = Inr r \<longrightarrow>
        (\<exists>t0 t1 a b c d. v = Vals [Some t0, Some t1]
           \<and> py_split (CHR '','') (slice_1_m1 t0) = [a, b]
           \<and> py_split (CHR '','') (slice_1_m1 t1) = [c, d]
           \<and> F a = Some (fst (fst r)) \<and> F b = Some (snd (fst r))
           \<and> F c = Some (fst (snd r)) \<and> F d = Some (snd (snd r))))"
proof (intro conjI impI)
  show "Coordinates_parse F (Val x) \<in> {Inl CoordinatesMalformed, Inl ValueError, Inl TypeError}"
    by (simp add: Coordinates_parse_Val split: option.splits)
next
  assume "length (py_split (CHR '','') (slice_1_m1 s0)) \<noteq> 2 \<or>
      length (py_split (CHR '','') (slice_1_m1 s1)) \<noteq> 2"
  then show "Coordinates_parse F (Vals [Some s0, Some s1]) = Inl ValueError"
    by (auto simp: Coordinates_parse_Vals_two split_pair_wrong_count split_pair_def
        split: sum.splits list.splits)
qed (auto dest: Coordinates_parse_wrong_length Coordinates_parse_Inr)

lemma parse_example_coordinates:
  "Coordinates_parse example_float (Vals [Some ''(40.5,-75.1)'', Some ''(39.5,-74.1)'']) =
     Inr ((40.5, - 75.1), (39.5, - 74.1))"
  by (simp add: Coordinates_parse_Vals_two split_pair_def slice_1_m1_def four_floats_def
      py_float_def example_float_def)

theorem Coordinates_parse_rejects_malformed_witness:
  "length [Some ''(1,2)'', Some ''(3,4)'', Some ''(5,6)''] \<noteq> 2
   \<and> Coordinates_parse example_float (Vals [Some ''(1,2)'', Some ''(3,4)'', Some ''(5,6)'']) =
       Inl CoordinatesMalformed
   \<and> Coordinates_parse example_float (Val (Some ''(40.5,-75.1)''))
       \<in> {Inl CoordinatesMalformed, Inl ValueError, Inl TypeError}
   \<and> length (py_split (CHR '','') (slice_1_m1 ''(40.5;-75.1)'')) \<noteq> 2
   \<and> Coordinates_parse example_float (Vals [Some ''(40.5;-75.1)'', Some ''(39.5,-74.1)'']) =
       Inl ValueError
   \<and> Coordinates_parse example_float (Vals [Some ''(40.5,-75.1)'', Some ''(39.5,-74.1)'']) =
       Inr ((40.5, - 75.1), (39.5, - 74.1))
   \<and> (\<exists>t0 t1 a b c d.
         Vals [Some ''(40.5,-75.1)'', Some ''(39.5,-74.1)''] = Vals [Some t0, Some t1]
         \<and> py_split (CHR '','') (slice_1_m1 t0) = [a, b]
         \<and> py_split (CHR '','') (slice_1_m1 t1) = [c, d]
         \<and> example_float a = Some 40.5 \<and> example_float b = Some (- 75.1)
         \<and> example_float c = Some 39.5 \<and> example_float d = Some (- 74.1))"
  using Coordinates_parse_rejects_malformed
      [of "[Some ''(1,2)'', Some ''(3,4)'', Some ''(5,6)'']" example_float
          "Some ''(40.5,-75.1)''" "''(40.5;-75.1)''" "''(39.5,-74.1)''"
          "Vals [Some ''(40.5,-75.1)'', Some ''(39.5,-74.1)'']"
          "((40.5, - 75.1), (39.5, - 74.1))"]
      parse_example_coordinates
  by (simp add: slice_1_m1_def)

section \<open>Reloading the config\<close>






text \<open>
  Claim C4 says that a failed ingestion leaves the area id, the coordinates and the tile
  in memory as they were. On a config text whose area id is present and whose
  coordinates have one segment, \<^verbatim>\<open>reload_config\<close> raises after it has assigned the new
  area id: the manager then holds the new area id with the old coordinates and the old
  tile.
\<close>

theorem reload_config_failure_keeps_new_area_id:
  "area_id old_state = Some (Val (Some ''OLD''))
   \<and> reload_config example_ext bad_text old_state =
       (Inl CoordinatesMalformed, old_state\<lparr>area_id := Some (Val (Some ''NEW''))\<rparr>)"
  by (simp add: reload_config_def load_bad_text config_get_def Coordinates_parse_Val
      old_state_def)

section \<open>The tiered lookup of MapManager\<close>

lemma example_cache_path:
  "path_div ''cache'' ''map_ABC123.png'' = ''cache/map_ABC123.png''"
  by (simp add: path_div_def path_parts_def)

lemma map_set_Inr:
  assumes "map_set X v s = (Inr u, s')"
  shows "\<exists>p. map_cache_file X s = Inr p \<and> files s' p = Some v
           \<and> cached_map s' = Some v \<and> area_id s' = area_id s"
  using assms
  by (auto simp: map_set_def Let_def map_cache_file_def file_unlink_def Image_save_def
      split: option.splits sum.splits if_splits)

lemma map_cache_file_area_id:
  "area_id s' = area_id s \<Longrightarrow> map_cache_file X s' = map_cache_file X s"
  by (simp add: map_cache_file_def)

lemma map_get_fills:
  assumes m: "cached_map s = None" and g: "fst (map_get X s) = Inr t"
  shows "\<exists>p m. map_cache_file X (snd (map_get X s)) = Inr p
           \<and> cached_map (snd (map_get X s)) = Some m
           \<and> files (snd (map_get X s)) p = Some m"
proof -
  from g m obtain p where p: "map_cache_file X s = Inr p"
    by (cases "map_cache_file X s") (auto simp: map_get_def)
  from g m p obtain i u s' where r: "map_set X i s = (Inr u, s')"
    and s': "snd (map_get X s) = s'"
    by (auto simp: map_get_def split: option.splits sum.splits prod.splits)
  from map_set_Inr [OF r] obtain q where
    "map_cache_file X s = Inr q" "files s' q = Some i" "cached_map s' = Some i"
    "area_id s' = area_id s"
    by blast
  with s' show ?thesis by (simp add: map_cache_file_area_id [of s' s])
qed

lemma example_map_cache_file:
  "area_id s = Some (Val (Some ''ABC123'')) \<Longrightarrow>
     map_cache_file example_ext s = Inr ''cache/map_ABC123.png''"
  by (simp add: map_cache_file_def py_str_def example_ext_def example_cache_path)

lemma example_map_set:
  assumes "area_id s = Some (Val (Some ''ABC123''))"
  shows "map_set example_ext v s =
     (Inr (), s\<lparr>cached_map := Some v, files := (files s)(''cache/map_ABC123.png'' \<mapsto> v)\<rparr>)"
proof -
  have "map_cache_file example_ext (s\<lparr>cached_map := Some v\<rparr>) = Inr ''cache/map_ABC123.png''"
    using assms by (simp add: example_map_cache_file)
  moreover have "file_unlink example_ext p fs = Inr (fs(p := None))" for p fs
    by (simp add: file_unlink_def example_ext_def)
  moreover have "Image_save example_ext v ''cache/map_ABC123.png'' fs =
      Inr (fs(''cache/map_ABC123.png'' \<mapsto> v))" for fs
    by (simp add: Image_save_def example_ext_def)
  ultimately show ?thesis
    by (simp add: map_set_def Let_def)
qed

lemma map_get_disk_hit:
  "map_get example_ext disk_hit_state =
     (Inr \<lparr>im_size = (900, 900), im_mode = ''RGBA'', im_data = 7\<rparr>,
      disk_hit_state\<lparr>cached_map := Some rgb_tile\<rparr>)"
  by (simp add: map_get_def disk_hit_state_def configured_def example_map_cache_file
      example_map_set)
     (simp add: Image_convert_def rgb_tile_def example_ext_def)

text \<open>
  Claim C1 says that two \<^verbatim>\<open>map\<close> lookups in a row return the same tile. On a
  configured manager whose cache file holds an image in mode RGB, the first lookup
  returns the image converted to RGBA while it stores the unconverted image in the
  attribute, and the second lookup returns that unconverted image: the two tiles differ
  in their mode.
\<close>

theorem map_get_twice_returns_different_tiles:
  "fst (map_get example_ext disk_hit_state) =
     Inr \<lparr>im_size = (900, 900), im_mode = ''RGBA'', im_data = 7\<rparr>
   \<and> fst (map_get example_ext (snd (map_get example_ext disk_hit_state))) =
     Inr \<lparr>im_size = (900, 900), im_mode = ''RGB'', im_data = 7\<rparr>"
  by (simp add: map_get_disk_hit) (simp add: map_get_def rgb_tile_def)




section \<open>The shape of the tiles\<close>









section \<open>The lookup of AreaMap\<close>

lemma render_offsets_Some:
  "lat1 s = Some a1 \<Longrightarrow> lat2 s = Some a2 \<Longrightarrow> lon1 s = Some o1 \<Longrightarrow> lon2 s = Some o2 \<Longrightarrow>
     render_offsets s =
       (Inr (py_int (x_of_lon o1), py_int (y_of_lin (make_linear a1)),
             py_int (x_of_lon o2), py_int (y_of_lin (make_linear a2))),
        s\<lparr>lat1 := Some (make_linear a1), lat2 := Some (make_linear a2)\<rparr>)"
  by (simp add: render_offsets_def Let_def make_linear_def)

lemma render_ok:
  assumes "am_files s (MAP_FILE X) = Some us" and "render_offsets s = (Inr box, s')"
    and "pil_crop X box us = Inr cropped"
    and "save_error X (os_path_join (MAPS X) (png_name (am_area_id s')))
           (Image_convert X ''RGBA'' (Image_resize X (900, 900) cropped)) = None"
  shows "render X s =
     (Inr (), s'\<lparr>am_map := Some (Image_convert X ''RGBA'' (Image_resize X (900, 900) cropped)),
        am_files := (am_files s')(os_path_join (MAPS X) (png_name (am_area_id s')) \<mapsto>
           Image_convert X ''RGBA'' (Image_resize X (900, 900) cropped))\<rparr>)"
  using assms by (simp add: render_def Let_def Image_save_def)

lemma render_offsets_area_id: "am_area_id (snd (render_offsets s)) = am_area_id s"
  by (simp add: render_offsets_def Let_def split: option.splits)

lemma render_Inr:
  assumes "render X s = (Inr u, s')"
  shows "am_map s' \<noteq> None \<and> am_area_id s' = am_area_id s
         \<and> am_files s' (os_path_join (MAPS X) (png_name (am_area_id s'))) = am_map s'"
proof -
  from assms obtain us where us: "am_files s (MAP_FILE X) = Some us"
    by (cases "am_files s (MAP_FILE X)") (auto simp: render_def)
  obtain ro s1 where ro: "render_offsets s = (ro, s1)" by (cases "render_offsets s")
  from render_offsets_area_id [of s] ro have a: "am_area_id s1 = am_area_id s" by simp
  from assms us ro obtain box where box: "ro = Inr box"
    by (cases ro) (auto simp: render_def)
  from assms us ro box a show ?thesis
    by (auto simp: render_def Let_def Image_save_def split: sum.splits option.splits)
qed

text \<open>
  \<^verbatim>\<open>AreaMap.get_map\<close> stores the converted image and returns what it stored, so a second
  call returns what the first returned and changes nothing.
\<close>

lemma get_map_twice:
  assumes "fst (get_map X s) = Inr r"
  shows "get_map X (snd (get_map X s)) = (Inr r, snd (get_map X s))"
proof (cases "am_map s")
  case (Some m)
  with assms show ?thesis by (auto simp: get_map_def)
next
  case None
  show ?thesis
  proof (cases "am_files s (os_path_join (MAPS X) (png_name (am_area_id s)))")
    case (Some img)
    with None assms show ?thesis by (auto simp: get_map_def Let_def)
  next
    case miss: None
    obtain res s' where r: "render X s = (res, s')" by (cases "render X s")
    with None miss assms obtain u where u: "res = Inr u" and rr: "r = am_map s'"
      by (cases res) (auto simp: get_map_def)
    from render_Inr [OF r [unfolded u]] have "am_map s' \<noteq> None" by simp
    with None miss r u rr show ?thesis by (auto simp: get_map_def)
  qed
qed

lemma get_map_disk_hit:
  assumes "am_map a = None"
    and "am_files a (os_path_join (MAPS X) (png_name (am_area_id a))) = Some img"
  shows "get_map X a =
     (Inr (Some (Image_convert X ''RGBA'' img)), a\<lparr>am_map := Some (Image_convert X ''RGBA'' img)\<rparr>)"
  using assms by (simp add: get_map_def Let_def)

lemma get_map_rendered:
  assumes n: "am_map b = None"
    and miss: "am_files b (os_path_join (MAPS X) (png_name (am_area_id b))) = None"
    and g: "fst (get_map X b) = Inr r"
  shows "r \<noteq> None \<and> am_map (snd (get_map X b)) = r
         \<and> am_files (snd (get_map X b))
             (os_path_join (MAPS X) (png_name (am_area_id (snd (get_map X b))))) = r"
proof -
  obtain res s' where r: "render X b = (res, s')" by (cases "render X b")
  with n miss g obtain u where u: "res = Inr u" and rr: "r = am_map s'"
    and s': "snd (get_map X b) = s'"
    by (cases res) (auto simp: get_map_def)
  from render_Inr [OF r [unfolded u]] rr s' show ?thesis by auto
qed

lemma render_us_box:
  "render example_ext us_box =
     (Inr (), us_box\<lparr>lat1 := Some (make_linear 49), lat2 := Some (make_linear 24),
        am_map := Some \<lparr>im_size = (900, 900), im_mode = ''RGBA'', im_data = 0\<rparr>,
        am_files := [''us_map.png'' \<mapsto> us_map_image,
           ''maps/ABC123.png'' \<mapsto> \<lparr>im_size = (900, 900), im_mode = ''RGBA'', im_data = 0\<rparr>]\<rparr>)"
proof -
  have 1: "render_offsets us_box =
       (Inr (py_int (x_of_lon (- 125)), py_int (y_of_lin (make_linear 49)),
             py_int (x_of_lon (- 66)), py_int (y_of_lin (make_linear 24))),
        us_box\<lparr>lat1 := Some (make_linear 49), lat2 := Some (make_linear 24)\<rparr>)"
    by (rule render_offsets_Some) (simp_all add: us_box_def)
  have f: "am_files us_box (MAP_FILE example_ext) = Some us_map_image"
    by (simp add: us_box_def example_ext_def)
  have c: "pil_crop example_ext box us_map_image = Inr us_map_image" for box
    by (simp add: example_ext_def)
  have e: "save_error example_ext p im = None" if "p = ''maps/ABC123.png''" for p im
    using that by (simp add: example_ext_def)
  have q: "os_path_join (MAPS example_ext)
      (png_name (am_area_id (us_box\<lparr>lat1 := Some (make_linear 49), lat2 := Some (make_linear 24)\<rparr>))) =
      ''maps/ABC123.png''"
    by (simp add: os_path_join_def png_name_def us_box_def example_ext_def)
  have r: "render example_ext us_box =
     (Inr (), (us_box\<lparr>lat1 := Some (make_linear 49), lat2 := Some (make_linear 24)\<rparr>)
        \<lparr>am_map := Some (Image_convert example_ext ''RGBA''
            (Image_resize example_ext (900, 900) us_map_image)),
         am_files := (am_files (us_box\<lparr>lat1 := Some (make_linear 49), lat2 := Some (make_linear 24)\<rparr>))
           (os_path_join (MAPS example_ext)
              (png_name (am_area_id (us_box\<lparr>lat1 := Some (make_linear 49), lat2 := Some (make_linear 24)\<rparr>))) \<mapsto>
            Image_convert example_ext ''RGBA''
              (Image_resize example_ext (900, 900) us_map_image))\<rparr>)"
    by (rule render_ok [OF f 1 c]) (rule e [OF q])
  have im: "Image_convert example_ext ''RGBA''
      (Image_resize example_ext (900, 900) us_map_image) =
      \<lparr>im_size = (900, 900), im_mode = ''RGBA'', im_data = 0\<rparr>"
    by (simp add: Image_convert_def Image_resize_def us_map_image_def example_ext_def)
  have fs: "(am_files (us_box\<lparr>lat1 := Some (make_linear 49), lat2 := Some (make_linear 24)\<rparr>))
      (''maps/ABC123.png'' \<mapsto> \<lparr>im_size = (900, 900), im_mode = ''RGBA'', im_data = 0\<rparr>) =
      [''us_map.png'' \<mapsto> us_map_image,
       ''maps/ABC123.png'' \<mapsto> \<lparr>im_size = (900, 900), im_mode = ''RGBA'', im_data = 0\<rparr>]"
    by (simp add: us_box_def)
  show ?thesis
    by (simp only: r im q fs)
qed

section \<open>The memory slot and the disk entry\<close>

text \<open>
  Claim C2, as stated, says that after every assignment of the tile in memory the cache
  file of the current area exists and holds that tile. The setter of \<^verbatim>\<open>MapManager\<close>
  assigns the attribute before it writes: with the area id \<^verbatim>\<open>a/b\<close> and no directory
  \<^verbatim>\<open>cache/map_a\<close> the save raises, the attribute holds the tile and no file exists. The
  disk hit of \<^verbatim>\<open>AreaMap.get_map\<close> fills the attribute with the converted image and
  writes nothing: the attribute holds an RGBA tile and the file the RGB image.
\<close>

theorem set_tile_without_matching_file_counterexample:
  "fst (map_set example_ext small_tile slash_state) = Inl FileNotFoundError
   \<and> cached_map (snd (map_set example_ext small_tile slash_state)) = Some small_tile
   \<and> map_cache_file example_ext (snd (map_set example_ext small_tile slash_state)) =
       Inr ''cache/map_a/b.png''
   \<and> files (snd (map_set example_ext small_tile slash_state)) ''cache/map_a/b.png'' = None
   \<and> am_map (snd (get_map example_ext am_disk_hit)) =
       Some \<lparr>im_size = (900, 900), im_mode = ''RGBA'', im_data = 7\<rparr>
   \<and> am_files (snd (get_map example_ext am_disk_hit)) ''maps/ABC123.png'' =
       Some \<lparr>im_size = (900, 900), im_mode = ''RGB'', im_data = 7\<rparr>"
proof -
  have p: "path_div ''cache'' ''map_a/b.png'' = ''cache/map_a/b.png''"
    by (simp add: path_div_def path_parts_def)
  have "map_set example_ext small_tile slash_state =
      (Inl FileNotFoundError, slash_state\<lparr>cached_map := Some small_tile\<rparr>)"
    by (simp add: map_set_def slash_state_def map_cache_file_def py_str_def example_ext_def
        Let_def p Image_save_def)
  moreover have "map_cache_file example_ext (slash_state\<lparr>cached_map := Some small_tile\<rparr>) =
      Inr ''cache/map_a/b.png''"
    by (simp add: slash_state_def map_cache_file_def py_str_def example_ext_def p)
  moreover have "get_map example_ext am_disk_hit =
      (Inr (Some \<lparr>im_size = (900, 900), im_mode = ''RGBA'', im_data = 7\<rparr>),
       am_disk_hit\<lparr>am_map := Some \<lparr>im_size = (900, 900), im_mode = ''RGBA'', im_data = 7\<rparr>\<rparr>)"
    by (simp add: get_map_def am_disk_hit_def os_path_join_def png_name_def example_ext_def
        Let_def Image_convert_def rgb_tile_def)
  ultimately show ?thesis
    by (simp add: slash_state_def) (simp add: am_disk_hit_def rgb_tile_def)
qed

text \<open>
  Claim C2, amended: when the setter of \<^verbatim>\<open>MapManager.map\<close> returns without raising,
  the attribute holds the tile and the cache file named by the current area id holds
  that tile; and a \<^verbatim>\<open>map\<close> lookup that starts from an empty attribute and returns a
  tile, from the cache file or from a new computation, leaves one and the same tile in
  the attribute and in that file. \<^verbatim>\<open>AreaMap.get_map\<close> on a disk hit fills its
  attribute with the RGBA conversion of the stored image and leaves the files as they
  are; when it renders and returns, the rendered tile is in the attribute and in the
  file of the area.
\<close>

theorem set_tile_success_matches_file:
  "(fst (map_set X v s) = Inr () \<longrightarrow>
      cached_map (snd (map_set X v s)) = Some v
      \<and> (\<exists>p. map_cache_file X (snd (map_set X v s)) = Inr p
             \<and> files (snd (map_set X v s)) p = Some v))
   \<and> (cached_map s = None \<and> fst (map_get X s) = Inr t \<longrightarrow>
        (\<exists>p m. map_cache_file X (snd (map_get X s)) = Inr p
           \<and> cached_map (snd (map_get X s)) = Some m
           \<and> files (snd (map_get X s)) p = Some m))
   \<and> (am_map a = None
        \<and> am_files a (os_path_join (MAPS X) (png_name (am_area_id a))) = Some img \<longrightarrow>
        get_map X a =
          (Inr (Some (Image_convert X ''RGBA'' img)),
           a\<lparr>am_map := Some (Image_convert X ''RGBA'' img)\<rparr>))
   \<and> (am_map b = None
        \<and> am_files b (os_path_join (MAPS X) (png_name (am_area_id b))) = None
        \<and> fst (get_map X b) = Inr r \<longrightarrow>
        r \<noteq> None \<and> am_map (snd (get_map X b)) = r
        \<and> am_files (snd (get_map X b))
            (os_path_join (MAPS X) (png_name (am_area_id (snd (get_map X b))))) = r)"
proof (intro conjI impI)
  assume ok: "fst (map_set X v s) = Inr ()"
  obtain s' where r: "map_set X v s = (Inr (), s')"
    using ok by (cases "map_set X v s") auto
  from map_set_Inr [OF r] obtain p where
    h: "map_cache_file X s = Inr p" "files s' p = Some v" "cached_map s' = Some v"
       "area_id s' = area_id s"
    by blast
  from r h show "cached_map (snd (map_set X v s)) = Some v" by simp
  from r h show "\<exists>p. map_cache_file X (snd (map_set X v s)) = Inr p
      \<and> files (snd (map_set X v s)) p = Some v"
    by (simp add: map_cache_file_area_id [of s' s])
next
  assume "cached_map s = None \<and> fst (map_get X s) = Inr t"
  then show "\<exists>p m. map_cache_file X (snd (map_get X s)) = Inr p
           \<and> cached_map (snd (map_get X s)) = Some m
           \<and> files (snd (map_get X s)) p = Some m"
    using map_get_fills [of s X t] by blast
next
  assume "am_map a = None
      \<and> am_files a (os_path_join (MAPS X) (png_name (am_area_id a))) = Some img"
  then show "get_map X a =
          (Inr (Some (Image_convert X ''RGBA'' img)),
           a\<lparr>am_map := Some (Image_convert X ''RGBA'' img)\<rparr>)"
    using get_map_disk_hit [of a X img] by blast
next
  assume h: "am_map b = None
        \<and> am_files b (os_path_join (MAPS X) (png_name (am_area_id b))) = None
        \<and> fst (get_map X b) = Inr r"
  then have h1: "am_map b = None"
    and h2: "am_files b (os_path_join (MAPS X) (png_name (am_area_id b))) = None"
    and h3: "fst (get_map X b) = Inr r"
    by simp_all
  note g = get_map_rendered [OF h1 h2 h3]
  from g show "r \<noteq> None" by simp
  from g show "am_map (snd (get_map X b)) = r" by simp
  from g show "am_files (snd (get_map X b))
            (os_path_join (MAPS X) (png_name (am_area_id (snd (get_map X b))))) = r" by simp
qed

theorem set_tile_success_matches_file_witness:
  "fst (map_set example_ext small_tile disk_hit_state) = Inr ()
   \<and> cached_map (snd (map_set example_ext small_tile disk_hit_state)) = Some small_tile
   \<and> map_cache_file example_ext (snd (map_set example_ext small_tile disk_hit_state)) =
       Inr ''cache/map_ABC123.png''
   \<and> files (snd (map_set example_ext small_tile disk_hit_state)) ''cache/map_ABC123.png'' =
       Some small_tile
   \<and> cached_map disk_hit_state = None
   \<and> fst (map_get example_ext disk_hit_state) =
       Inr \<lparr>im_size = (900, 900), im_mode = ''RGBA'', im_data = 7\<rparr>
   \<and> cached_map (snd (map_get example_ext disk_hit_state)) = Some rgb_tile
   \<and> files (snd (map_get example_ext disk_hit_state)) ''cache/map_ABC123.png'' = Some rgb_tile
   \<and> am_map am_disk_hit = None
   \<and> am_files am_disk_hit (os_path_join (MAPS example_ext) (png_name (am_area_id am_disk_hit))) =
       Some rgb_tile
   \<and> fst (get_map example_ext am_disk_hit) = Inr (Some (Image_convert example_ext ''RGBA'' rgb_tile))
   \<and> am_files (snd (get_map example_ext am_disk_hit)) = am_files am_disk_hit
   \<and> am_map us_box = None
   \<and> am_files us_box (os_path_join (MAPS example_ext) (png_name (am_area_id us_box))) = None
   \<and> fst (get_map example_ext us_box) =
       Inr (Some \<lparr>im_size = (900, 900), im_mode = ''RGBA'', im_data = 0\<rparr>)
   \<and> am_files (snd (get_map example_ext us_box)) ''maps/ABC123.png'' =
       Some \<lparr>im_size = (900, 900), im_mode = ''RGBA'', im_data = 0\<rparr>"
proof -
  have a: "area_id disk_hit_state = Some (Val (Some ''ABC123''))"
    by (simp add: disk_hit_state_def configured_def)
  have set: "map_set example_ext small_tile disk_hit_state =
      (Inr (), disk_hit_state\<lparr>cached_map := Some small_tile,
         files := [''cache/map_ABC123.png'' \<mapsto> small_tile]\<rparr>)"
    by (simp add: example_map_set [OF a]) (simp add: disk_hit_state_def configured_def)
  have path: "map_cache_file example_ext (disk_hit_state\<lparr>cached_map := m, files := fs\<rparr>) =
      Inr ''cache/map_ABC123.png''" for m fs
    by (simp add: example_map_cache_file a)
  have q: "os_path_join (MAPS example_ext) (png_name (Some ''ABC123'')) = ''maps/ABC123.png''"
    by (simp add: os_path_join_def png_name_def example_ext_def)
  have am: "am_map am_disk_hit = None" "am_area_id am_disk_hit = Some ''ABC123''"
      "am_files am_disk_hit ''maps/ABC123.png'' = Some rgb_tile"
    by (simp_all add: am_disk_hit_def)
  have ub: "am_map us_box = None" "am_area_id us_box = Some ''ABC123''"
      "am_files us_box ''maps/ABC123.png'' = None"
    by (simp_all add: us_box_def)
  have get: "get_map example_ext us_box =
      (Inr (Some \<lparr>im_size = (900, 900), im_mode = ''RGBA'', im_data = 0\<rparr>),
       snd (render example_ext us_box))"
    by (simp add: get_map_def ub q render_us_box)
  show ?thesis
    using set_tile_success_matches_file [of example_ext small_tile disk_hit_state
        "\<lparr>im_size = (900, 900), im_mode = ''RGBA'', im_data = 7\<rparr>"
        am_disk_hit rgb_tile us_box
        "Some \<lparr>im_size = (900, 900), im_mode = ''RGBA'', im_data = 0\<rparr>"]
    by (simp add: set path map_get_disk_hit am ub q get render_us_box)
       (simp add: disk_hit_state_def configured_def)
qed

section \<open>The projection on repeated calls\<close>

text \<open>
  The box of \<^verbatim>\<open>MapManager.create_map\<close> is \<open>crop_box\<close> of the coordinates, which
  \<^verbatim>\<open>create_map\<close> does not change. \<^verbatim>\<open>AreaMap.render\<close> keeps the linearised latitudes in
  the attributes it read them from. The bounds below separate the offset of the first
  call from the offset of the second by more than ninety pixels, on real numbers; the
  rounding of floats is far below that.
\<close>

lemma arsinh_le_aux: "arsinh (x::real) \<le> x + sqrt (x\<^sup>2 + 1) - 1"
  unfolding arsinh_real_def using ln_le_minus_one [OF arsinh_real_aux [of x]] by simp

lemma arsinh_mono_real: "(x::real) \<le> y \<Longrightarrow> arsinh x \<le> arsinh y"
  using arsinh_less_iff_real [of y x]
  by (simp add: not_less [symmetric] del: arsinh_less_iff_real)

lemma arsinh_1_lower: "3/4 \<le> arsinh (1::real)"
proof -
  have "exp (3/4 :: real) \<le> 1 + 3/4 + (3/4)\<^sup>2"
    by (rule exp_bound) simp_all
  also have "\<dots> \<le> 1 + 14/10" by (simp add: power2_eq_square)
  also have "\<dots> \<le> 1 + sqrt 2"
    using real_le_rsqrt [of "14/10" 2] by (simp add: power2_eq_square)
  finally have "exp (3/4 :: real) \<le> 1 + sqrt 2" .
  then have "3/4 \<le> ln (1 + sqrt 2)"
    by (subst ln_ge_iff) (auto intro: add_pos_nonneg)
  then show ?thesis by (simp add: arsinh_real_def)
qed

lemma tan_49_lower: "1 \<le> tan (radians 49)"
proof -
  have "tan (pi / 4) \<le> tan (radians 49)"
    unfolding radians_def by (rule tan_mono_le) (use pi_gt_zero in auto)
  then show ?thesis by (simp add: tan_45)
qed

lemma tan_49_upper: "tan (radians 49) \<le> 2"
proof -
  have "tan (radians 49) \<le> tan (pi / 3)"
    unfolding radians_def by (rule tan_mono_le) (use pi_gt_zero in auto)
  also have "\<dots> = sqrt 3" by (rule tan_60)
  also have "\<dots> \<le> 2" by (rule real_le_lsqrt) simp_all
  finally show ?thesis .
qed

lemma make_linear_49_bounds: "- 3 \<le> make_linear 49 \<and> make_linear 49 \<le> 33/100"
proof -
  let ?T = "arsinh (tan (radians 49))"
  have lo: "3/4 \<le> ?T"
    using arsinh_1_lower arsinh_mono_real [OF tan_49_lower] by linarith
  have "?T \<le> arsinh 2" by (rule arsinh_mono_real [OF tan_49_upper])
  also have "\<dots> \<le> 2 + sqrt (2\<^sup>2 + 1) - 1" by (rule arsinh_le_aux)
  also have "\<dots> \<le> 2 + 3 - 1"
    using real_le_lsqrt [of 3 "2\<^sup>2 + 1"] by simp
  finally have hi: "?T \<le> 4" by simp
  show ?thesis using lo hi by (simp add: make_linear_def LAT_MAX_def)
qed

lemma make_linear_small_lower:
  assumes "- 3 \<le> l" "l \<le> 33/100"
  shows "339/1000 \<le> make_linear l"
proof -
  have p: "0 \<le> pi / 180" using pi_gt_zero by simp
  have "- 3 * (pi / 180) \<le> l * (pi / 180)"
    by (rule mult_right_mono [OF assms(1) p])
  moreover have "l * (pi / 180) \<le> 33/100 * (pi / 180)"
    by (rule mult_right_mono [OF assms(2) p])
  ultimately have "- (pi / 2) < l * (pi / 180)" "l * (pi / 180) \<le> pi / 6"
    using pi_gt_zero by linarith+
  then have "tan (radians l) \<le> tan (pi / 6)"
    unfolding radians_def by (intro tan_mono_le) (use pi_gt_zero in simp_all)
  also have "\<dots> = 1 / sqrt 3" by (rule tan_30)
  also have "\<dots> \<le> 58/100"
  proof -
    have "173/100 \<le> sqrt 3" by (rule real_le_rsqrt) (simp add: power2_eq_square)
    then show ?thesis by (simp add: field_simps)
  qed
  finally have "arsinh (tan (radians l)) \<le> arsinh (58/100)" by (rule arsinh_mono_real)
  also have "\<dots> \<le> 58/100 + sqrt ((58/100)\<^sup>2 + 1) - 1" by (rule arsinh_le_aux)
  also have "\<dots> \<le> 58/100 + 116/100 - 1"
    using real_le_lsqrt [of "116/100" "(58/100)\<^sup>2 + 1"] by (simp add: power2_eq_square)
  finally show ?thesis by (simp add: make_linear_def LAT_MAX_def)
qed

lemma py_int_mono:
  assumes xy: "x \<le> y"
  shows "py_int x \<le> py_int y"
proof (cases "0 \<le> x")
  case True
  then show ?thesis using xy by (simp add: py_int_def floor_mono)
next
  case False
  then have x0: "x \<le> 0" by simp
  show ?thesis
  proof (cases "0 \<le> y")
    case True
    have "\<lceil>x\<rceil> \<le> 0" using x0 by (simp add: ceiling_le_zero)
    moreover have "0 \<le> \<lfloor>y\<rfloor>" using True by simp
    ultimately have "\<lceil>x\<rceil> \<le> \<lfloor>y\<rfloor>" by linarith
    then show ?thesis using False True by (simp add: py_int_def)
  next
    case y: False
    then show ?thesis using False xy by (simp add: py_int_def ceiling_mono)
  qed
qed

lemma relinearised_offset_gap:
  "py_int (y_of_lin (make_linear 49)) < py_int (y_of_lin (make_linear (make_linear 49)))"
proof -
  have a: "y_of_lin (make_linear 49) \<le> 3441"
    using make_linear_49_bounds
    by (simp add: y_of_lin_def LAT_MAX_def REF_LAT_def field_simps)
  have b: "3534 \<le> y_of_lin (make_linear (make_linear 49))"
    using make_linear_small_lower [of "make_linear 49"] make_linear_49_bounds
    by (simp add: y_of_lin_def LAT_MAX_def REF_LAT_def field_simps)
  have "py_int (y_of_lin (make_linear 49)) \<le> py_int 3441"
    by (rule py_int_mono [OF a])
  moreover have "py_int 3534 \<le> py_int (y_of_lin (make_linear (make_linear 49)))"
    by (rule py_int_mono [OF b])
  ultimately show ?thesis by (simp add: py_int_def)
qed

text \<open>
  Claim C5 says that computing the tile again on the same instance gives the same four
  pixel offsets. On an \<^verbatim>\<open>AreaMap\<close> holding the box of the specification (49, -125, 24,
  -66), \<^verbatim>\<open>render\<close> succeeds, and the offsets that a second \<^verbatim>\<open>render\<close> on that
  instance computes are not the offsets of the first: the first call has replaced the
  latitudes by their linearised values, which the second call linearises again.
\<close>

theorem render_twice_changes_offsets:
  "fst (render example_ext us_box) = Inr ()
   \<and> fst (render_offsets (snd (render example_ext us_box))) \<noteq> fst (render_offsets us_box)"
proof -
  have 1: "render_offsets us_box =
       (Inr (py_int (x_of_lon (- 125)), py_int (y_of_lin (make_linear 49)),
             py_int (x_of_lon (- 66)), py_int (y_of_lin (make_linear 24))),
        us_box\<lparr>lat1 := Some (make_linear 49), lat2 := Some (make_linear 24)\<rparr>)"
    by (rule render_offsets_Some) (simp_all add: us_box_def)
  note r = render_us_box
  have 2: "fst (render example_ext us_box) = Inr ()"
    by (simp add: r)
  have 3: "lat1 (snd (render example_ext us_box)) = Some (make_linear 49)"
       "lat2 (snd (render example_ext us_box)) = Some (make_linear 24)"
       "lon1 (snd (render example_ext us_box)) = Some (- 125)"
       "lon2 (snd (render example_ext us_box)) = Some (- 66)"
    by (simp_all add: r) (simp_all add: us_box_def)
  have 4: "fst (render_offsets (snd (render example_ext us_box))) =
      Inr (py_int (x_of_lon (- 125)), py_int (y_of_lin (make_linear (make_linear 49))),
           py_int (x_of_lon (- 66)), py_int (y_of_lin (make_linear (make_linear 24))))"
    by (simp add: render_offsets_Some [OF 3])
  show ?thesis using relinearised_offset_gap by (simp add: 1 2 4)
qed

end
